theory Spec2Isabelle
  imports Main "HOL-Library.Monad_Syntax"
begin

section \<open>Data model (src/src/lib/inventory.ts, Types)\<close>

text \<open>
  A JavaScript string is modelled as a \<^typ>\<open>string\<close>: its UTF-8 bytes. The Thai literals
  of the source are written out byte by byte below.

  \<^verbatim>\<open>export type Status = <normal> | <low> | <empty>\<close>: a union of three string
  literals, here a datatype with one constructor per literal. \<open>Normal\<close> is the literal
  U+0E1B U+0E01 U+0E15 U+0E34, \<open>Low\<close> is U+0E43 U+0E01 U+0E25 U+0E49 U+0E2B U+0E21 U+0E14
  and \<open>Empty\<close> is U+0E2B U+0E21 U+0E14.
\<close>

datatype Status = Normal | Low | Empty

text \<open>
  \<^verbatim>\<open>export type Item = { id; category; name; qty; unit; status; location; checkedBy?; lastUpdated? }\<close>.
  The numbers \<open>id\<close> and \<open>qty\<close> are integers (the \<open>bigint\<close> and \<open>int\<close> columns of the
  items table); an optional field is an \<open>option\<close>. The field \<open>id\<close> is named \<open>item_id\<close>,
  since \<open>id\<close> is the identity function of HOL.
\<close>

record Item =
  item_id :: int
  category :: string
  name :: string
  qty :: int
  unit :: string
  status :: Status
  location :: string
  checkedBy :: "string list option"
  lastUpdated :: "string option"

section \<open>Status rule\<close>

text \<open>
  \<^verbatim>\<open>
  function computeStatus(qty: number, low: number): Status {
    if (qty <= 0) return <empty>;
    if (qty <= low) return <low>;
    return <normal>;
  }\<close>
\<close>

definition computeStatus :: "int \<Rightarrow> int \<Rightarrow> Status" where
  "computeStatus q low =
     (if q \<le> 0 then Empty
      else if q \<le> low then Low
      else Normal)"

section \<open>Query engine\<close>

subsection \<open>Strings\<close>

text \<open>
  The sentinel of a filter that is not set, the literal U+0E17 U+0E31 U+0E49 U+0E07
  U+0E2B U+0E21 U+0E14 ("all"), and the three status literals, in UTF-8.
\<close>

definition all_label :: string where
  "all_label =
     [CHR 0xE0, CHR 0xB8, CHR 0x97, CHR 0xE0, CHR 0xB8, CHR 0xB1,
      CHR 0xE0, CHR 0xB9, CHR 0x89, CHR 0xE0, CHR 0xB8, CHR 0x87,
      CHR 0xE0, CHR 0xB8, CHR 0xAB, CHR 0xE0, CHR 0xB8, CHR 0xA1,
      CHR 0xE0, CHR 0xB8, CHR 0x94]"

fun status_str :: "Status \<Rightarrow> string" where
  "status_str Normal =
     [CHR 0xE0, CHR 0xB8, CHR 0x9B, CHR 0xE0, CHR 0xB8, CHR 0x81,
      CHR 0xE0, CHR 0xB8, CHR 0x95, CHR 0xE0, CHR 0xB8, CHR 0xB4]"
| "status_str Low =
     [CHR 0xE0, CHR 0xB9, CHR 0x83, CHR 0xE0, CHR 0xB8, CHR 0x81,
      CHR 0xE0, CHR 0xB8, CHR 0xA5, CHR 0xE0, CHR 0xB9, CHR 0x89,
      CHR 0xE0, CHR 0xB8, CHR 0xAB, CHR 0xE0, CHR 0xB8, CHR 0xA1,
      CHR 0xE0, CHR 0xB8, CHR 0x94]"
| "status_str Empty =
     [CHR 0xE0, CHR 0xB8, CHR 0xAB, CHR 0xE0, CHR 0xB8, CHR 0xA1,
      CHR 0xE0, CHR 0xB8, CHR 0x94]"

text \<open>
  \<open>String.prototype.toLowerCase\<close> on the ASCII range: the bytes of \<open>A\<close> to \<open>Z\<close> (65 to 90)
  go to those of \<open>a\<close> to \<open>z\<close>, every other byte is kept. (The built-in also lowers letters
  outside ASCII; their bytes are kept here.)
\<close>

definition is_upper :: "char \<Rightarrow> bool" where
  "is_upper c = (65 \<le> (of_char c :: nat) \<and> (of_char c :: nat) \<le> 90)"

definition lower_char :: "char \<Rightarrow> char" where
  "lower_char c = (if is_upper c then char_of ((of_char c :: nat) + 32) else c)"

definition toLowerCase :: "string \<Rightarrow> string" where
  "toLowerCase s = map lower_char s"

text \<open>
  \<open>s.includes(q)\<close>: \<open>q\<close> stands in \<open>s\<close> at some position \<open>k\<close> from 0 to the length of \<open>s\<close>.
\<close>

definition includes_str :: "string \<Rightarrow> string \<Rightarrow> bool" where
  "includes_str s q = list_ex (\<lambda>k. take (length q) (drop k s) = q) [0 ..< length s + 1]"

text \<open>\<open>String(xs)\<close> of an array of strings: \<open>xs.join(",")\<close>.\<close>

fun join_comma :: "string list \<Rightarrow> string" where
  "join_comma [] = []"
| "join_comma [x] = x"
| "join_comma (x # y # ys) = x @ '','' @ join_comma (y # ys)"

text \<open>\<open>v ?? d\<close>.\<close>

definition orElse :: "'a option \<Rightarrow> 'a \<Rightarrow> 'a" where
  "orElse v d = (case v of None \<Rightarrow> d | Some x \<Rightarrow> x)"

subsection \<open>Filters and sort specification\<close>

text \<open>
  \<^verbatim>\<open>
  export type SortKey = keyof Item;
  filters: { q?: string; category?: string; status?: Status | <all>; location?: string; onlyLow?: boolean; }
  sort: { key: SortKey; asc: boolean; }\<close>
  The fields of the filters carry the prefix \<open>f\<close> (\<open>fq\<close> for \<open>q\<close>, \<open>fcategory\<close> for
  \<open>category\<close>, and so on), \<open>onlyLow\<close> apart: an \<open>Item\<close> has fields of the same names.
\<close>

datatype SortKey =
  K_id | K_category | K_name | K_qty | K_unit | K_status | K_location | K_checkedBy | K_lastUpdated

datatype StatusFilter = AllStatuses | Only Status

record Filters =
  fq :: "string option"
  fcategory :: "string option"
  fstatus :: "StatusFilter option"
  flocation :: "string option"
  onlyLow :: "bool option"

record Sort =
  key :: SortKey
  asc :: bool

subsection \<open>Array.prototype.sort\<close>

text \<open>
  \<open>xs.sort(cmp)\<close> is a stable sort (ECMAScript 2019): where \<open>cmp\<close> is a consistent
  comparator, the result is the permutation of \<open>xs\<close> ordered by \<open>cmp\<close> in which elements
  that compare equal keep their order. The model is the stable insertion sort: an element
  goes before the first later element it does not compare greater than. (With a
  comparator that is not consistent the built-in returns a permutation in an order the
  engine chooses; the model returns the one of the insertion sort.)
\<close>

fun insertBy :: "('a \<Rightarrow> 'a \<Rightarrow> int) \<Rightarrow> 'a \<Rightarrow> 'a list \<Rightarrow> 'a list" where
  "insertBy c x [] = [x]"
| "insertBy c x (y # ys) = (if c x y \<le> 0 then x # y # ys else y # insertBy c x ys)"

definition sortBy :: "('a \<Rightarrow> 'a \<Rightarrow> int) \<Rightarrow> 'a list \<Rightarrow> 'a list" where
  "sortBy c xs = foldr (insertBy c) xs []"

subsection \<open>filterAndSort\<close>

text \<open>
  \<^verbatim>\<open>
  const cmp = (a: Item, b: Item) => {
    const A: any = a[key] as any, B: any = b[key] as any;
    if (key === "qty" || key === "id") {
      const nA = Number.isFinite(Number(A)) ? Number(A) : 0;
      const nB = Number.isFinite(Number(B)) ? Number(B) : 0;
      const res = nA - nB; return asc ? res : -res;
    }
    if (key === "lastUpdated") {
      const tA = A ? new Date(A).getTime() : 0;
      const tB = B ? new Date(B).getTime() : 0;
      const res = tA - tB; return asc ? res : -res;
    }
    const res = String(A ?? "").localeCompare(String(B ?? ""), "th");
    return asc ? res : -res;
  };\<close>
  Two built-ins are parameters: \<open>localeCompare\<close> is \<open>a.localeCompare(b, "th")\<close> (the Thai
  collation of the platform) and \<open>getTime\<close> is \<open>new Date(a).getTime()\<close>, \<open>None\<close> where the
  date does not parse (NaN). An integer is always finite, so \<open>nA\<close> is the field itself. A
  NaN result of the comparator is read by \<open>sort\<close> as 0. A missing or empty timestamp is
  falsy and counts as time 0.
\<close>

definition direction :: "bool \<Rightarrow> int \<Rightarrow> int" where
  "direction asc' res = (if asc' then res else - res)"

definition timeOf :: "(string \<Rightarrow> int option) \<Rightarrow> string option \<Rightarrow> int option" where
  "timeOf getTime A =
     (case A of None \<Rightarrow> Some 0 | Some a \<Rightarrow> if a = [] then Some 0 else getTime a)"

definition cmp ::
  "(string \<Rightarrow> string \<Rightarrow> int) \<Rightarrow> (string \<Rightarrow> int option) \<Rightarrow> Sort \<Rightarrow> Item \<Rightarrow> Item \<Rightarrow> int" where
  "cmp localeCompare getTime srt a b =
     (case key srt of
        K_qty \<Rightarrow> direction (asc srt) (qty a - qty b)
      | K_id \<Rightarrow> direction (asc srt) (item_id a - item_id b)
      | K_lastUpdated \<Rightarrow>
          (case (timeOf getTime (lastUpdated a), timeOf getTime (lastUpdated b)) of
             (Some tA, Some tB) \<Rightarrow> direction (asc srt) (tA - tB)
           | _ \<Rightarrow> 0)
      | K_category \<Rightarrow> direction (asc srt) (localeCompare (category a) (category b))
      | K_name \<Rightarrow> direction (asc srt) (localeCompare (name a) (name b))
      | K_unit \<Rightarrow> direction (asc srt) (localeCompare (unit a) (unit b))
      | K_status \<Rightarrow>
          direction (asc srt) (localeCompare (status_str (status a)) (status_str (status b)))
      | K_location \<Rightarrow> direction (asc srt) (localeCompare (location a) (location b))
      | K_checkedBy \<Rightarrow>
          direction (asc srt)
            (localeCompare (case checkedBy a of None \<Rightarrow> [] | Some cs \<Rightarrow> join_comma cs)
                           (case checkedBy b of None \<Rightarrow> [] | Some cs \<Rightarrow> join_comma cs)))"

text \<open>
  \<^verbatim>\<open>
  function filterAndSort(items: Item[], filters, sort) {
    const q = (filters.q ?? "").toLowerCase();
    let out = items.filter(i => i.name.toLowerCase().includes(q)
                || i.category.toLowerCase().includes(q) || i.location.toLowerCase().includes(q));
    if ((filters.category ?? <all>) !== <all>) out = out.filter(i => i.category === filters.category);
    if ((filters.status ?? <all>) !== <all>) out = out.filter(i => i.status === filters.status);
    if ((filters.location ?? <all>) !== <all>) out = out.filter(i => i.location === filters.location);
    if (filters.onlyLow) out = out.filter(i => i.status !== <normal>);
    const { key, asc } = sort;
    const cmp = ...;
    return [...out].sort(cmp);
  }\<close>
  The five predicates are named; \<open>filterItems\<close> is the chain of \<open>filter\<close> calls on the
  elements, \<open>filterAndSort\<close> the value returned.
\<close>

definition matchesQuery :: "Filters \<Rightarrow> Item \<Rightarrow> bool" where
  "matchesQuery filters i =
     (let q' = toLowerCase (orElse (fq filters) [])
      in includes_str (toLowerCase (name i)) q'
         \<or> includes_str (toLowerCase (category i)) q'
         \<or> includes_str (toLowerCase (location i)) q')"

definition categoryActive :: "Filters \<Rightarrow> bool" where
  "categoryActive filters = (orElse (fcategory filters) all_label \<noteq> all_label)"

definition statusActive :: "Filters \<Rightarrow> bool" where
  "statusActive filters = (orElse (fstatus filters) AllStatuses \<noteq> AllStatuses)"

definition locationActive :: "Filters \<Rightarrow> bool" where
  "locationActive filters = (orElse (flocation filters) all_label \<noteq> all_label)"

definition onlyLowActive :: "Filters \<Rightarrow> bool" where
  "onlyLowActive filters = (onlyLow filters = Some True)"

definition filterItems :: "Filters \<Rightarrow> Item list \<Rightarrow> Item list" where
  "filterItems filters xs =
     (let out1 = filter (matchesQuery filters) xs;
          out2 = (if categoryActive filters
                  then filter (\<lambda>i. Some (category i) = fcategory filters) out1 else out1);
          out3 = (if statusActive filters
                  then filter (\<lambda>i. Some (Only (status i)) = fstatus filters) out2 else out2);
          out4 = (if locationActive filters
                  then filter (\<lambda>i. Some (location i) = flocation filters) out3 else out3);
          out5 = (if onlyLowActive filters
                  then filter (\<lambda>i. status i \<noteq> Normal) out4 else out4)
      in out5)"

definition filterAndSort ::
  "(string \<Rightarrow> string \<Rightarrow> int) \<Rightarrow> (string \<Rightarrow> int option) \<Rightarrow> Item list \<Rightarrow> Filters \<Rightarrow> Sort \<Rightarrow> Item list" where
  "filterAndSort localeCompare getTime xs filters srt =
     sortBy (cmp localeCompare getTime srt) (filterItems filters xs)"

subsection \<open>filterAndSort on the store of arrays\<close>

text \<open>
  A JavaScript array is an object: \<open>filter\<close> and the spread \<open>[...out]\<close> make a new array,
  \<open>sort\<close> reorders the array it is called on and returns that same array. To say what
  \<open>filterAndSort\<close> does to its argument, the arrays are kept in a store: a list of arrays,
  where a reference is an index and a new array takes the next index. An operation on a
  reference outside the store has no result.
\<close>

type_synonym ref = nat
type_synonym store = "Item list list"

definition new_array :: "Item list \<Rightarrow> store \<Rightarrow> ref \<times> store" where
  "new_array xs h = (length h, h @ [xs])"

definition array_filter :: "(Item \<Rightarrow> bool) \<Rightarrow> ref \<Rightarrow> store \<Rightarrow> (ref \<times> store) option" where
  "array_filter p a h = (if a < length h then Some (new_array (filter p (h ! a)) h) else None)"

definition array_spread :: "ref \<Rightarrow> store \<Rightarrow> (ref \<times> store) option" where
  "array_spread a h = (if a < length h then Some (new_array (h ! a) h) else None)"

definition array_sort :: "(Item \<Rightarrow> Item \<Rightarrow> int) \<Rightarrow> ref \<Rightarrow> store \<Rightarrow> (ref \<times> store) option" where
  "array_sort c a h = (if a < length h then Some (a, h[a := sortBy c (h ! a)]) else None)"

text \<open>
  The body of \<open>filterAndSort\<close>, statement by statement, on references: \<open>items\<close> is the
  reference of the argument, the result is the reference returned and the store after
  the call.
\<close>

definition filterAndSort_store ::
  "(string \<Rightarrow> string \<Rightarrow> int) \<Rightarrow> (string \<Rightarrow> int option) \<Rightarrow> ref \<Rightarrow> Filters \<Rightarrow> Sort
     \<Rightarrow> store \<Rightarrow> (ref \<times> store) option" where
  "filterAndSort_store localeCompare getTime items filters srt h0 =
     do {
       (out, h) \<leftarrow> array_filter (matchesQuery filters) items h0;
       (out, h) \<leftarrow> (if categoryActive filters
                     then array_filter (\<lambda>i. Some (category i) = fcategory filters) out h
                     else Some (out, h));
       (out, h) \<leftarrow> (if statusActive filters
                     then array_filter (\<lambda>i. Some (Only (status i)) = fstatus filters) out h
                     else Some (out, h));
       (out, h) \<leftarrow> (if locationActive filters
                     then array_filter (\<lambda>i. Some (location i) = flocation filters) out h
                     else Some (out, h));
       (out, h) \<leftarrow> (if onlyLowActive filters
                     then array_filter (\<lambda>i. status i \<noteq> Normal) out h
                     else Some (out, h));
       (copy, h) \<leftarrow> array_spread out h;
       array_sort (cmp localeCompare getTime srt) copy h
     }"

text \<open>
  \<open>grows h0 out h xs\<close>: the store \<open>h\<close> is \<open>h0\<close> with arrays added at its end, and \<open>out\<close>
  refers in \<open>h\<close> to the array \<open>xs\<close>. It is what holds between the store at the call and the
  store after each statement of \<open>filterAndSort\<close>.
\<close>

definition grows :: "store \<Rightarrow> ref \<Rightarrow> store \<Rightarrow> Item list \<Rightarrow> bool" where
  "grows h0 out h xs = (out < length h \<and> h ! out = xs \<and> (\<exists>ys. h = h0 @ ys))"

subsection \<open>Example records\<close>

text \<open>
  Three records in the shape of the seed data (ids 18, 4 and 1 of \<open>SEED\<close>), with ASCII
  texts, and two trivial stand-ins for the platform's collation and date parser.
\<close>

definition ex_tips :: Item where
  "ex_tips = \<lparr>item_id = 18, category = ''general'', name = ''Tips 10 ul'', qty = 8,
              unit = ''pack'', status = Normal, location = ''shelf'',
              checkedBy = None, lastUpdated = None\<rparr>"

definition ex_dettol :: Item where
  "ex_dettol = \<lparr>item_id = 4, category = ''misc'', name = ''Dettol'', qty = 1,
                unit = ''bottle'', status = Low, location = ''sink'',
                checkedBy = None, lastUpdated = None\<rparr>"

definition ex_tissue :: Item where
  "ex_tissue = \<lparr>item_id = 1, category = ''misc'', name = ''Tissue'', qty = 0,
                unit = ''roll'', status = Empty, location = ''shelf'',
                checkedBy = None, lastUpdated = None\<rparr>"

definition ex_collate :: "string \<Rightarrow> string \<Rightarrow> int" where
  "ex_collate a b = (if a = b then 0 else 1)"

definition ex_getTime :: "string \<Rightarrow> int option" where
  "ex_getTime a = None"

definition ex_filters :: Filters where
  "ex_filters = \<lparr>fq = Some ''t'', fcategory = Some ''misc'', fstatus = None,
                 flocation = None, onlyLow = Some True\<rparr>"

section \<open>Record store: quantity adjustment\<close>

text \<open>
  \<^verbatim>\<open>
  async function adjustQty(id: number, delta: number) {
    setItems(prev => prev.map(i => {
      if (i.id !== id) return i;
      const newQty = Math.max(0, i.qty + delta);
      const newStatus = autoStatus ? computeStatus(newQty, lowThreshold) : i.status;
      return { ...i, qty: newQty, status: newStatus, lastUpdated: nowISO() };
    }));
    const cur = items.find(i => i.id === id);
    const toSave = cur ? { ...cur, qty: Math.max(0, cur.qty + delta), status: ..., lastUpdated: nowISO() } : undefined;
    if (toSave) await dbUpsertItem(toSave);
  }\<close>
  The component state the closure reads (\<open>autoStatus\<close>, \<open>lowThreshold\<close>) and the clock
  (\<open>nowISO()\<close>) are the leading parameters. \<open>adjustOne\<close> is the callback given to
  \<open>prev.map\<close>, \<open>adjustQty\<close> the state update, \<open>adjustQty_toSave\<close> the record handed to
  \<open>dbUpsertItem\<close> (none when no record has the id).
\<close>

definition adjustOne :: "bool \<Rightarrow> int \<Rightarrow> string \<Rightarrow> int \<Rightarrow> int \<Rightarrow> Item \<Rightarrow> Item" where
  "adjustOne autoStatus lowThreshold now target delta i =
     (if item_id i \<noteq> target then i
      else
        let newQty = max 0 (qty i + delta);
            newStatus = (if autoStatus then computeStatus newQty lowThreshold else status i)
        in i\<lparr>qty := newQty, status := newStatus, lastUpdated := Some now\<rparr>)"

definition adjustQty :: "bool \<Rightarrow> int \<Rightarrow> string \<Rightarrow> int \<Rightarrow> int \<Rightarrow> Item list \<Rightarrow> Item list" where
  "adjustQty autoStatus lowThreshold now target delta prev =
     map (adjustOne autoStatus lowThreshold now target delta) prev"

definition adjustQty_toSave :: "bool \<Rightarrow> int \<Rightarrow> string \<Rightarrow> int \<Rightarrow> int \<Rightarrow> Item list \<Rightarrow> Item option" where
  "adjustQty_toSave autoStatus lowThreshold now target delta items =
     (case find (\<lambda>i. item_id i = target) items of
        None \<Rightarrow> None
      | Some cur \<Rightarrow>
          Some (cur\<lparr>qty := max 0 (qty cur + delta),
                    status := (if autoStatus
                               then computeStatus (max 0 (qty cur + delta)) lowThreshold
                               else status cur),
                    lastUpdated := Some now\<rparr>))"

section \<open>Merge engine: records\<close>

text \<open>
  A row of the \<open>items\<close> table as a realtime payload carries it. \<open>rowToItem\<close> reads
  \<open>r.checked_by ?? []\<close> and \<open>r.last_updated ?? undefined\<close>, so these two columns are
  nullable here; the other columns are taken at the types the \<open>Item\<close> they are cast to has.
  \<^verbatim>\<open>
  function rowToItem(r: any): Item {
    return { id: Number(r.id), category: r.category, name: r.name, qty: Number(r.qty),
             unit: r.unit, status: r.status, location: r.location,
             checkedBy: r.checked_by ?? [], lastUpdated: r.last_updated ?? undefined } as Item;
  }\<close>
\<close>

record Row =
  row_id :: int
  row_category :: string
  row_name :: string
  row_qty :: int
  row_unit :: string
  row_status :: Status
  row_location :: string
  checked_by :: "string list option"
  last_updated :: "string option"

definition rowToItem :: "Row \<Rightarrow> Item" where
  "rowToItem r =
     \<lparr>item_id = row_id r, category = row_category r, name = row_name r, qty = row_qty r,
      unit = row_unit r, status = row_status r, location = row_location r,
      checkedBy = Some (case checked_by r of None \<Rightarrow> [] | Some cs \<Rightarrow> cs),
      lastUpdated = last_updated r\<rparr>"

text \<open>
  \<^verbatim>\<open>
  function mergeOne(prev: Item[], it: Item): Item[] {
    const exists = prev.some(x => x.id === it.id);
    return exists ? prev.map(x => x.id === it.id ? it : x) : [...prev, it];
  }\<close>
\<close>

definition mergeOne :: "Item list \<Rightarrow> Item \<Rightarrow> Item list" where
  "mergeOne prev it =
     (let exists = list_ex (\<lambda>x. item_id x = item_id it) prev
      in if exists then map (\<lambda>x. if item_id x = item_id it then it else x) prev
         else prev @ [it])"

text \<open>
  The handlers of the realtime channel for the \<open>items\<close> table. INSERT and UPDATE run
  \<^verbatim>\<open>setItems(prev => mergeOne(prev, rowToItem(r)))\<close> on \<open>payload.new\<close>; DELETE runs
  \<^verbatim>\<open>setItems(prev => prev.filter(i => i.id !== Number(r.id)))\<close> on \<open>payload.old\<close>.
\<close>

definition onItemsUpsert :: "Item list \<Rightarrow> Row \<Rightarrow> Item list" where
  "onItemsUpsert prev r = mergeOne prev (rowToItem r)"

definition onItemsDelete :: "Item list \<Rightarrow> Row \<Rightarrow> Item list" where
  "onItemsDelete prev r = filter (\<lambda>i. item_id i \<noteq> row_id r) prev"

section \<open>Checker roster\<close>

text \<open>
  \<open>String.prototype.trim\<close> drops, at both ends, every code point of the ECMAScript
  productions WhiteSpace and LineTerminator: U+0009 to U+000D, U+0020, U+00A0, U+1680,
  U+2000 to U+200A, U+2028, U+2029, U+202F, U+205F, U+3000 and U+FEFF. \<open>white_space\<close>
  lists their UTF-8 encodings. In well-formed UTF-8 an encoding that stands at the start
  or at the end of a string is a code point of the string.
\<close>

definition white_space :: "string list" where
  "white_space =
     [[CHR 0x09], [CHR 0x0A], [CHR 0x0B], [CHR 0x0C], [CHR 0x0D], [CHR 0x20],
      [CHR 0xC2, CHR 0xA0],
      [CHR 0xE1, CHR 0x9A, CHR 0x80],
      [CHR 0xE2, CHR 0x80, CHR 0x80], [CHR 0xE2, CHR 0x80, CHR 0x81],
      [CHR 0xE2, CHR 0x80, CHR 0x82], [CHR 0xE2, CHR 0x80, CHR 0x83],
      [CHR 0xE2, CHR 0x80, CHR 0x84], [CHR 0xE2, CHR 0x80, CHR 0x85],
      [CHR 0xE2, CHR 0x80, CHR 0x86], [CHR 0xE2, CHR 0x80, CHR 0x87],
      [CHR 0xE2, CHR 0x80, CHR 0x88], [CHR 0xE2, CHR 0x80, CHR 0x89],
      [CHR 0xE2, CHR 0x80, CHR 0x8A],
      [CHR 0xE2, CHR 0x80, CHR 0xA8], [CHR 0xE2, CHR 0x80, CHR 0xA9],
      [CHR 0xE2, CHR 0x80, CHR 0xAF],
      [CHR 0xE2, CHR 0x81, CHR 0x9F],
      [CHR 0xE3, CHR 0x80, CHR 0x80],
      [CHR 0xEF, CHR 0xBB, CHR 0xBF]]"

text \<open>
  \<open>strip_any ws s\<close> drops from the start of \<open>s\<close> one of the words \<open>ws\<close> after the other, as
  long as one stands there. (Every word of \<open>white_space\<close> is non-empty; the test for it
  makes each step shorten \<open>s\<close>.) \<open>trimStart\<close> drops the white space at the start,
  \<open>trimEnd\<close> the white space at the end, read backwards; \<open>trim\<close> does both.
\<close>

function strip_any :: "string list \<Rightarrow> string \<Rightarrow> string" where
  "strip_any ws s =
     (case find (\<lambda>w. w \<noteq> [] \<and> take (length w) s = w) ws of
        None \<Rightarrow> s
      | Some w \<Rightarrow> strip_any ws (drop (length w) s))"
  by pat_completeness auto
termination
proof (relation "measure (\<lambda>(ws, s). length s)")
  show "wf (measure (\<lambda>(ws, s). length s))"
    by simp
next
  fix ws :: "string list" and s w :: string
  assume "find (\<lambda>w. w \<noteq> [] \<and> take (length w) s = w) ws = Some w"
  then have w: "w \<noteq> []" and t: "take (length w) s = w"
    by (auto simp: find_Some_iff)
  have "length (take (length w) s) = length w"
    by (simp only: t)
  then have "length w \<le> length s"
    by simp
  with w show "((ws, drop (length w) s), (ws, s)) \<in> measure (\<lambda>(ws, s). length s)"
    by (cases w) simp_all
qed

definition trimStart :: "string \<Rightarrow> string" where
  "trimStart s = strip_any white_space s"

definition trimEnd :: "string \<Rightarrow> string" where
  "trimEnd s = rev (strip_any (map rev white_space) (rev s))"

definition trim :: "string \<Rightarrow> string" where
  "trim s = trimEnd (trimStart s)"

text \<open>
  The text of the \<open>alert\<close> of \<open>addMember\<close> ("this name is already there"), in UTF-8.
\<close>

definition DUPLICATE_MESSAGE :: string where
  "DUPLICATE_MESSAGE =
     [CHR 0xE0, CHR 0xB8, CHR 0xA1, CHR 0xE0, CHR 0xB8, CHR 0xB5,
      CHR 0xE0, CHR 0xB8, CHR 0x8A, CHR 0xE0, CHR 0xB8, CHR 0xB7,
      CHR 0xE0, CHR 0xB9, CHR 0x88, CHR 0xE0, CHR 0xB8, CHR 0xAD,
      CHR 0xE0, CHR 0xB8, CHR 0x99, CHR 0xE0, CHR 0xB8, CHR 0xB5,
      CHR 0xE0, CHR 0xB9, CHR 0x89, CHR 0xE0, CHR 0xB8, CHR 0xAD,
      CHR 0xE0, CHR 0xB8, CHR 0xA2, CHR 0xE0, CHR 0xB8, CHR 0xB9,
      CHR 0xE0, CHR 0xB9, CHR 0x88, CHR 0xE0, CHR 0xB9, CHR 0x81,
      CHR 0xE0, CHR 0xB8, CHR 0xA5, CHR 0xE0, CHR 0xB9, CHR 0x89,
      CHR 0xE0, CHR 0xB8, CHR 0xA7]"

text \<open>
  \<^verbatim>\<open>
  async function addMember() {
    const name = newMember.trim(); if (!name) return;
    if (checkers.some(c => c.toLowerCase() === name.toLowerCase())) { alert(<message>); return; }
    const next = [...checkers, name];
    await dbSetCheckers(next);
    setCheckers(next);
    setNewMember("");
  }\<close>
  The arguments are whether \<open>dbSetCheckers\<close> resolves (it throws when the backend
  reports an error, and the two state updates after it are then not reached), the roster
  \<open>checkers\<close> and the text of the input field \<open>newMember\<close>. The result is the message
  shown by \<open>alert\<close>, if any, the roster and the input field after the call. The local
  \<open>name\<close> is written \<open>name'\<close> (\<open>name\<close> is a field of \<open>Item\<close>).
\<close>

definition addMember :: "bool \<Rightarrow> string list \<Rightarrow> string \<Rightarrow> string option \<times> string list \<times> string" where
  "addMember saved checkers newMember =
     (let name' = trim newMember in
      if name' = [] then (None, checkers, newMember)
      else if list_ex (\<lambda>c. toLowerCase c = toLowerCase name') checkers
        then (Some DUPLICATE_MESSAGE, checkers, newMember)
      else let next = checkers @ [name'] in
        if \<not> saved then (None, checkers, newMember)
        else (None, next, []))"

text \<open>
  Two names are equal up to ASCII case when they have the same length and, position by
  position, the same byte or the two cases of one ASCII letter (the lower case letter is
  32 above the upper case one).
\<close>

definition same_letter :: "char \<Rightarrow> char \<Rightarrow> bool" where
  "same_letter a b =
     (a = b
      \<or> (is_upper a \<and> (of_char b :: nat) = of_char a + 32)
      \<or> (is_upper b \<and> (of_char a :: nat) = of_char b + 32))"

definition ascii_ci_eq :: "string \<Rightarrow> string \<Rightarrow> bool" where
  "ascii_ci_eq a b = list_all2 same_letter a b"

subsection \<open>Merge engine: roster\<close>

text \<open>
  A JavaScript \<open>Set\<close> keeps its elements in the order of their first insertion:
  \<open>new Set(xs)\<close> adds the elements of \<open>xs\<close> one by one, and adding an element that is
  already there changes nothing. \<open>Array.from\<close> lists the elements in that order.
\<close>

definition set_add :: "'a list \<Rightarrow> 'a \<Rightarrow> 'a list" where
  "set_add s x = (if x \<in> set s then s else s @ [x])"

definition new_Set :: "'a list \<Rightarrow> 'a list" where
  "new_Set xs = foldl set_add [] xs"

text \<open>
  The handlers of the realtime channel for the \<open>checkers\<close> table:
  \<^verbatim>\<open>
  INSERT: setCheckers(prev => Array.from(new Set([...prev, r.name])))
  DELETE: setCheckers(prev => prev.filter(n => n !== r.name))\<close>
\<close>

definition onCheckersInsert :: "string list \<Rightarrow> string \<Rightarrow> string list" where
  "onCheckersInsert prev n = new_Set (prev @ [n])"

definition onCheckersDelete :: "string list \<Rightarrow> string \<Rightarrow> string list" where
  "onCheckersDelete prev n = filter (\<lambda>m. m \<noteq> n) prev"

section \<open>The component state and its handlers\<close>

text \<open>
  \<^verbatim>\<open>
  async function removeMember(name: string) {
    if (!confirm(...)) return;
    const next = checkers.filter(n => n !== name);
    await dbSetCheckers(next);
    setCheckers(next);
  }
  async function remove(id: number) {
    if (!confirm(...)) return;
    await dbDeleteItem(id);
    setItems(prev => prev.filter(i => i.id !== id));
  }\<close>
  The first argument is the answer to \<open>confirm\<close>, the second whether the write to the
  backend resolves (it throws on an error of the backend, before the state update).
  \<open>remove\<close> is named \<open>removeItem\<close>: \<open>remove\<close> is a constant of HOL.
\<close>

definition removeMember :: "bool \<Rightarrow> bool \<Rightarrow> string \<Rightarrow> string list \<Rightarrow> string list" where
  "removeMember confirmed saved n checkers =
     (if \<not> confirmed then checkers
      else let next = filter (\<lambda>m. m \<noteq> n) checkers in
        if \<not> saved then checkers else next)"

definition removeItem :: "bool \<Rightarrow> bool \<Rightarrow> int \<Rightarrow> Item list \<Rightarrow> Item list" where
  "removeItem confirmed deleted target prev =
     (if \<not> confirmed then prev
      else if \<not> deleted then prev
      else filter (\<lambda>i. item_id i \<noteq> target) prev)"

text \<open>
  The state of \<open>InventoryApp\<close> that the store operations read and write (the
  \<open>useState\<close> hooks \<open>items\<close>, \<open>checkers\<close>, \<open>autoStatus\<close>, \<open>lowThreshold\<close>, \<open>checkOpen\<close>,
  \<open>checkTarget\<close>, \<open>checkSelected\<close>, \<open>newMember\<close>). A \<open>Set\<close> of names is the list of its
  elements in insertion order.
\<close>

record App =
  items :: "Item list"
  checkers :: "string list"
  autoStatus :: bool
  lowThreshold :: int
  checkOpen :: bool
  checkTarget :: "Item option"
  checkSelected :: "string list"
  newMember :: string

text \<open>
  \<^verbatim>\<open>
  function openQuickCheck(it: Item) {
    setCheckTarget(it);
    setCheckSelected(new Set(it.checkedBy ?? []));
    setCheckOpen(true);
  }
  function toggleChecker(name: string) {
    setCheckSelected(prev => { const s = new Set(prev); s.has(name) ? s.delete(name) : s.add(name); return s; });
  }
  async function confirmQuickCheck() {
    if (!checkTarget) return;
    const list = Array.from(checkSelected);
    const updated: Item = { ...checkTarget, checkedBy: list, lastUpdated: nowISO() };
    await dbUpsertItem(updated);
    setItems(prev => prev.map(i => i.id === updated.id ? updated : i));
    setCheckOpen(false); setCheckTarget(null);
  }\<close>
  \<open>confirmQuickCheck\<close> takes the clock and whether \<open>dbUpsertItem\<close> resolves.
\<close>

definition openQuickCheck :: "Item \<Rightarrow> App \<Rightarrow> App" where
  "openQuickCheck it s =
     s\<lparr>checkTarget := Some it,
       checkSelected := new_Set (orElse (checkedBy it) []),
       checkOpen := True\<rparr>"

definition toggleChecker :: "string \<Rightarrow> App \<Rightarrow> App" where
  "toggleChecker n s =
     s\<lparr>checkSelected :=
         (if n \<in> set (checkSelected s) then filter (\<lambda>m. m \<noteq> n) (checkSelected s)
          else checkSelected s @ [n])\<rparr>"

definition confirmQuickCheck :: "string \<Rightarrow> bool \<Rightarrow> App \<Rightarrow> App" where
  "confirmQuickCheck now saved s =
     (case checkTarget s of
        None \<Rightarrow> s
      | Some target \<Rightarrow>
          let list = checkSelected s;
              updated = target\<lparr>checkedBy := Some list, lastUpdated := Some now\<rparr>
          in if \<not> saved then s
             else s\<lparr>items := map (\<lambda>i. if item_id i = item_id updated then updated else i) (items s),
                    checkOpen := False,
                    checkTarget := None\<rparr>)"

text \<open>
  What can happen to the component: the calls the buttons and inputs of the page make,
  and the events of the realtime channel. Each event is handled to completion before the
  next one.
  \<^item> \<open>AdjustQty id delta now\<close>: \<open>adjustQty(id, delta)\<close> at the time \<open>now\<close>.
  \<^item> \<open>OpenQuickCheck k\<close>: the button of a table row calls \<open>openQuickCheck(it)\<close> with the
    record \<open>it\<close> of that row; the rows are those of \<open>filterAndSort(items, ...)\<close>, records
    of \<open>items\<close>, so the event names the record by its index \<open>k\<close> in \<open>items\<close>.
  \<^item> \<open>ToggleChecker name\<close>, \<open>ConfirmQuickCheck now saved\<close>: the buttons of the dialog.
  \<^item> \<open>Remove confirmed deleted id\<close>: \<open>remove(id)\<close>.
  \<^item> \<open>SetNewMember v\<close>, \<open>AddMember saved\<close>, \<open>RemoveMember confirmed saved name\<close>: the roster
    dialog.
  \<^item> \<open>SetAutoStatus b\<close>, \<open>SetLowThreshold v\<close>: the two settings; the threshold input runs
    \<open>setLowThreshold(Math.max(1, Number(v)))\<close>.
  \<^item> \<open>ItemsUpsert row\<close> (INSERT or UPDATE), \<open>ItemsDelete row\<close>, \<open>CheckersInsert name\<close>,
    \<open>CheckersDelete name\<close>: the events of the realtime channel.
\<close>

datatype Event =
    AdjustQty int int string
  | OpenQuickCheck nat
  | ToggleChecker string
  | ConfirmQuickCheck string bool
  | Remove bool bool int
  | SetNewMember string
  | AddMember bool
  | RemoveMember bool bool string
  | SetAutoStatus bool
  | SetLowThreshold int
  | ItemsUpsert Row
  | ItemsDelete Row
  | CheckersInsert string
  | CheckersDelete string

fun handle :: "App \<Rightarrow> Event \<Rightarrow> App" where
  "handle s (AdjustQty target delta now) =
     s\<lparr>items := adjustQty (autoStatus s) (lowThreshold s) now target delta (items s)\<rparr>"
| "handle s (OpenQuickCheck k) =
     (if k < length (items s) then openQuickCheck (items s ! k) s else s)"
| "handle s (ToggleChecker n) = toggleChecker n s"
| "handle s (ConfirmQuickCheck now saved) = confirmQuickCheck now saved s"
| "handle s (Remove confirmed deleted target) =
     s\<lparr>items := removeItem confirmed deleted target (items s)\<rparr>"
| "handle s (SetNewMember v) = s\<lparr>newMember := v\<rparr>"
| "handle s (AddMember saved) =
     (case addMember saved (checkers s) (newMember s) of
        (shown, roster, field) \<Rightarrow> s\<lparr>checkers := roster, newMember := field\<rparr>)"
| "handle s (RemoveMember confirmed saved n) =
     s\<lparr>checkers := removeMember confirmed saved n (checkers s)\<rparr>"
| "handle s (SetAutoStatus b) = s\<lparr>autoStatus := b\<rparr>"
| "handle s (SetLowThreshold v) = s\<lparr>lowThreshold := max 1 v\<rparr>"
| "handle s (ItemsUpsert r) = s\<lparr>items := onItemsUpsert (items s) r\<rparr>"
| "handle s (ItemsDelete r) = s\<lparr>items := onItemsDelete (items s) r\<rparr>"
| "handle s (CheckersInsert n) = s\<lparr>checkers := onCheckersInsert (checkers s) n\<rparr>"
| "handle s (CheckersDelete n) = s\<lparr>checkers := onCheckersDelete (checkers s) n\<rparr>"

definition run :: "App \<Rightarrow> Event list \<Rightarrow> App" where
  "run s es = foldl handle s es"

text \<open>
  The invariant on quantities: every record of the store, and the record the quick-check
  dialog holds (\<open>confirmQuickCheck\<close> writes it back whole), has a quantity of at least 0.
  A remote insert or update is clamped when the quantity of its row is at least 0; every
  other event is.
\<close>

definition qty_inv :: "App \<Rightarrow> bool" where
  "qty_inv s =
     (list_all (\<lambda>i. 0 \<le> qty i) (items s)
      \<and> (case checkTarget s of None \<Rightarrow> True | Some target \<Rightarrow> 0 \<le> qty target))"

fun clamped :: "Event \<Rightarrow> bool" where
  "clamped (ItemsUpsert r) = (0 \<le> row_qty r)"
| "clamped e = True"

definition ex_app :: App where
  "ex_app = \<lparr>items = [ex_tips, ex_dettol, ex_tissue], checkers = [''Ann'', ''Bo''],
             autoStatus = True, lowThreshold = 1, checkOpen = False, checkTarget = None,
             checkSelected = [], newMember = []\<rparr>"

definition ex_row :: "int \<Rightarrow> Row" where
  "ex_row n = \<lparr>row_id = 7, row_category = ''misc'', row_name = ''Bags'', row_qty = n,
               row_unit = ''pack'', row_status = Low, row_location = ''drawer'',
               checked_by = None, last_updated = None\<rparr>"

section \<open>Status rule: properties\<close>

text \<open>
  C1. For every integer quantity \<open>q\<close> and every threshold \<open>t \<ge> 1\<close>, the status rule
  returns Empty when \<open>q \<le> 0\<close>, Low when \<open>0 < q \<le> t\<close> and Normal when \<open>q > t\<close>; in
  particular it gives Empty at \<open>(0, t)\<close>, Low at \<open>(t, t)\<close> and Normal at \<open>(t + 1, t)\<close>.
  The function is a total HOL function of its two arguments: it has a value at every
  input, and that value depends on nothing else.
\<close>

theorem computeStatus_rule:
  assumes "1 \<le> t"
  shows "(q \<le> 0 \<longrightarrow> computeStatus q t = Empty)
       \<and> (0 < q \<and> q \<le> t \<longrightarrow> computeStatus q t = Low)
       \<and> (t < q \<longrightarrow> computeStatus q t = Normal)
       \<and> computeStatus 0 t = Empty
       \<and> computeStatus t t = Low
       \<and> computeStatus (t + 1) t = Normal"
  using assms by (simp add: computeStatus_def)

theorem computeStatus_rule_witness:
  "(1::int) \<le> 1
   \<and> computeStatus 0 1 = Empty \<and> computeStatus 1 1 = Low \<and> computeStatus 5 1 = Normal
   \<and> computeStatus (- 3) 1 = Empty \<and> computeStatus 2 1 = Normal"
  using computeStatus_rule [of 1 0] computeStatus_rule [of 1 5] computeStatus_rule [of 1 "- 3"]
  by simp

section \<open>Quantity adjustment: properties\<close>

lemma adjustQty_length: "length (adjustQty a low now target delta prev) = length prev"
  by (simp add: adjustQty_def)

lemma adjustQty_nth:
  "k < length prev \<Longrightarrow>
   adjustQty a low now target delta prev ! k = adjustOne a low now target delta (prev ! k)"
  by (simp add: adjustQty_def)

lemma adjustOne_id: "item_id (adjustOne a low now target delta i) = item_id i"
  by (simp add: adjustOne_def Let_def)

lemma adjustOne_qty:
  "item_id i = target \<Longrightarrow> qty (adjustOne a low now target delta i) = max 0 (qty i + delta)"
  by (simp add: adjustOne_def Let_def)

lemma adjustOne_other: "item_id i \<noteq> target \<Longrightarrow> adjustOne a low now target delta i = i"
  by (simp add: adjustOne_def)

lemma adjustOne_nonneg: "0 \<le> qty i \<Longrightarrow> 0 \<le> qty (adjustOne a low now target delta i)"
  by (simp add: adjustOne_def Let_def)

text \<open>
  The record persisted by \<open>adjustQty\<close> is the updated form of the first record with the
  id, when the closure's \<open>items\<close> is the current state.
\<close>

lemma adjustQty_toSave_eq:
  "adjustQty_toSave a low now target delta xs =
     map_option (adjustOne a low now target delta) (find (\<lambda>i. item_id i = target) xs)"
proof (cases "find (\<lambda>i. item_id i = target) xs")
  case None
  then show ?thesis by (simp add: adjustQty_toSave_def)
next
  case (Some cur)
  then have "item_id cur = target"
    by (auto simp: find_Some_iff)
  with Some show ?thesis
    by (simp add: adjustQty_toSave_def adjustOne_def Let_def)
qed

text \<open>
  C2. For every record of the store with the adjusted id and every delta, the adjustment
  sets the quantity to \<open>max 0 (current + delta)\<close>; with auto-status on, the status is the
  status rule at the new quantity and the current threshold; the timestamp is the
  current time. A record at quantity 0 adjusted by \<open>-1\<close> stays at 0.
\<close>

theorem adjustQty_record:
  assumes "k < length prev" and "item_id (prev ! k) = target"
  shows "qty (adjustQty a low now target delta prev ! k) = max 0 (qty (prev ! k) + delta)
       \<and> (a \<longrightarrow> status (adjustQty a low now target delta prev ! k)
                  = computeStatus (max 0 (qty (prev ! k) + delta)) low)
       \<and> lastUpdated (adjustQty a low now target delta prev ! k) = Some now
       \<and> (qty (prev ! k) = 0 \<and> delta = - 1
            \<longrightarrow> qty (adjustQty a low now target delta prev ! k) = 0)"
  using assms by (simp add: adjustQty_nth adjustOne_def Let_def)

theorem adjustQty_record_witness:
  "qty (adjustQty True 1 ''t1'' 7 (- 1)
          [\<lparr>item_id = 7, category = ''c'', name = ''n'', qty = 0, unit = ''u'',
            status = Empty, location = ''l'', checkedBy = None, lastUpdated = None\<rparr>] ! 0) = 0
   \<and> status (adjustQty True 1 ''t1'' 7 (- 1)
          [\<lparr>item_id = 7, category = ''c'', name = ''n'', qty = 0, unit = ''u'',
            status = Empty, location = ''l'', checkedBy = None, lastUpdated = None\<rparr>] ! 0) = Empty
   \<and> lastUpdated (adjustQty True 1 ''t1'' 7 (- 1)
          [\<lparr>item_id = 7, category = ''c'', name = ''n'', qty = 0, unit = ''u'',
            status = Empty, location = ''l'', checkedBy = None, lastUpdated = None\<rparr>] ! 0)
       = Some ''t1''"
  using adjustQty_record [of 0
      "[\<lparr>item_id = 7, category = ''c'', name = ''n'', qty = 0, unit = ''u'',
         status = Empty, location = ''l'', checkedBy = None, lastUpdated = None\<rparr>]"
      7 True 1 "''t1''" "- 1"]
  by (simp add: computeStatus_def)

text \<open>
  C10. The clamped decrement is not undone by an increment at zero: a record at quantity
  0 adjusted by \<open>-1\<close> and then by \<open>+1\<close> is at quantity 1, and the round trip gives back the
  original quantity exactly for the records whose quantity was at least 1.
\<close>

theorem adjustQty_dec_inc:
  assumes "k < length prev" and "item_id (prev ! k) = target"
  shows "(qty (prev ! k) = 0 \<longrightarrow>
            qty (adjustQty a2 low2 now2 target 1
                   (adjustQty a1 low1 now1 target (- 1) prev) ! k) = 1)
       \<and> (qty (adjustQty a2 low2 now2 target 1
                   (adjustQty a1 low1 now1 target (- 1) prev) ! k) = qty (prev ! k)
            \<longleftrightarrow> 1 \<le> qty (prev ! k))"
proof -
  let ?mid = "adjustQty a1 low1 now1 target (- 1) prev"
  have k: "k < length ?mid"
    using assms(1) by (simp add: adjustQty_length)
  have mid: "?mid ! k = adjustOne a1 low1 now1 target (- 1) (prev ! k)"
    using assms(1) by (rule adjustQty_nth)
  have id_mid: "item_id (?mid ! k) = target"
    using assms(2) by (simp add: mid adjustOne_id)
  have "qty (adjustQty a2 low2 now2 target 1 ?mid ! k) = max 0 (qty (?mid ! k) + 1)"
    using k id_mid by (simp add: adjustQty_nth adjustOne_qty)
  also have "qty (?mid ! k) = max 0 (qty (prev ! k) + (- 1))"
    using assms(2) by (simp only: mid adjustOne_qty)
  finally show ?thesis
    by auto
qed

theorem adjustQty_dec_inc_witness:
  "qty (adjustQty True 1 ''t2'' 7 1 (adjustQty True 1 ''t1'' 7 (- 1)
          [\<lparr>item_id = 7, category = ''c'', name = ''n'', qty = 0, unit = ''u'',
            status = Empty, location = ''l'', checkedBy = None, lastUpdated = None\<rparr>]) ! 0) = 1"
  using adjustQty_dec_inc [of 0
      "[\<lparr>item_id = 7, category = ''c'', name = ''n'', qty = 0, unit = ''u'',
         status = Empty, location = ''l'', checkedBy = None, lastUpdated = None\<rparr>]"
      7 True 1 "''t2''" True 1 "''t1''"]
  by simp

section \<open>Merge engine, records: properties\<close>

lemma mergeOne_present:
  "list_ex (\<lambda>x. item_id x = item_id it) prev \<Longrightarrow>
   mergeOne prev it = map (\<lambda>x. if item_id x = item_id it then it else x) prev"
  by (simp add: mergeOne_def)

lemma mergeOne_absent:
  "\<not> list_ex (\<lambda>x. item_id x = item_id it) prev \<Longrightarrow> mergeOne prev it = prev @ [it]"
  by (simp add: mergeOne_def)

lemma mergeOne_has_id: "list_ex (\<lambda>x. item_id x = item_id it) (mergeOne prev it)"
proof (cases "list_ex (\<lambda>x. item_id x = item_id it) prev")
  case True
  then show ?thesis
    by (auto simp: mergeOne_present list_ex_iff)
next
  case False
  then show ?thesis
    by (simp add: mergeOne_absent)
qed

lemma mergeOne_twice: "mergeOne (mergeOne prev it) it = mergeOne prev it"
proof (cases "list_ex (\<lambda>x. item_id x = item_id it) prev")
  case True
  have "mergeOne (mergeOne prev it) it
          = map (\<lambda>x. if item_id x = item_id it then it else x) (mergeOne prev it)"
    using mergeOne_has_id by (rule mergeOne_present)
  also have "\<dots> = map (\<lambda>x. if item_id x = item_id it then it else x) prev"
    using True by (simp add: mergeOne_present)
  finally show ?thesis
    using True by (simp add: mergeOne_present)
next
  case False
  then have unchanged: "map (\<lambda>x. if item_id x = item_id it then it else x) prev = prev"
    by (simp add: list_ex_iff map_idI)
  have "mergeOne (mergeOne prev it) it
          = map (\<lambda>x. if item_id x = item_id it then it else x) (mergeOne prev it)"
    using mergeOne_has_id by (rule mergeOne_present)
  also have "\<dots> = prev @ [it]"
    using False unchanged by (simp add: mergeOne_absent)
  finally show ?thesis
    using False by (simp add: mergeOne_absent)
qed

text \<open>
  C3. For every record list and every remote "record upserted" payload, folding the
  payload in twice in succession gives the same list as folding it in once, both for
  \<open>mergeOne\<close> on a record and for the channel handler on the row.
\<close>

theorem mergeOne_idempotent:
  "mergeOne (mergeOne prev it) it = mergeOne prev it
   \<and> onItemsUpsert (onItemsUpsert prev r) r = onItemsUpsert prev r"
  by (simp add: onItemsUpsert_def mergeOne_twice)

theorem mergeOne_idempotent_witness:
  "mergeOne (mergeOne [ex_tips] ex_dettol) ex_dettol = [ex_tips, ex_dettol]
   \<and> onItemsUpsert (onItemsUpsert [ex_tips] (ex_row 3)) (ex_row 3) = [ex_tips, rowToItem (ex_row 3)]"
proof -
  have 1: "mergeOne [ex_tips] ex_dettol = [ex_tips, ex_dettol]"
    by code_simp
  have 2: "onItemsUpsert [ex_tips] (ex_row 3) = [ex_tips, rowToItem (ex_row 3)]"
    by code_simp
  from mergeOne_idempotent [of "[ex_tips]" ex_dettol "ex_row 3"] 1 2 show ?thesis
    by simp
qed

section \<open>Query engine: properties\<close>

subsection \<open>The sort returns a permutation ordered by the comparator\<close>

lemma set_insertBy: "set (insertBy c x ys) = insert x (set ys)"
  by (induction ys) auto

lemma set_sortBy: "set (sortBy c xs) = set xs"
  by (induction xs) (simp_all add: sortBy_def set_insertBy)

text \<open>
  With a comparator that subtracts integer keys, the insertion sort is the library's
  stable sort by that key.
\<close>

lemma insertBy_key: "insertBy (\<lambda>a b. (k a :: int) - k b) x ys = insort_key k x ys"
  by (induction ys) auto

lemma sortBy_key: "sortBy (\<lambda>a b. (k a :: int) - k b) xs = sort_key k xs"
  by (induction xs) (simp_all add: sortBy_def insertBy_key)

lemma sortBy_key_desc: "sortBy (\<lambda>a b. - ((k a :: int) - k b)) xs = sort_key (\<lambda>a. - k a) xs"
proof -
  have "insertBy (\<lambda>a b. - (k a - k b)) x ys = insort_key (\<lambda>a. - k a) x ys" for x ys
    by (induction ys) auto
  then show ?thesis
    by (induction xs) (simp_all add: sortBy_def)
qed

text \<open>
  With pairwise distinct keys there is one list of the elements in descending order of
  the key: the reverse of the ascending one.
\<close>

lemma sort_key_neg_rev:
  assumes "distinct (map k xs)"
  shows "sort_key (\<lambda>a. - (k a :: int)) xs = rev (sort_key k xs)"
proof -
  let ?n = "\<lambda>a. - k a"
  let ?d = "sort_key ?n xs" and ?u = "sort_key k xs"
  have inj: "inj_on k (set xs)" and dx: "distinct xs"
    using assms by (simp_all add: distinct_map)
  have injn: "inj_on ?n (set xs)"
    using inj by (simp add: inj_on_def)
  have sd: "sorted (map ?n ?d)" by simp
  have "sorted (map k ?u)" by simp
  then have sr: "sorted (map ?n (rev ?u))"
    unfolding sorted_wrt_map sorted_wrt_rev by simp
  have dd: "distinct (map ?n ?d)"
    using dx injn by (simp add: distinct_map)
  have dr: "distinct (map ?n (rev ?u))"
    using dx injn by (simp add: distinct_map)
  have "set (map ?n ?d) = set (map ?n (rev ?u))"
    by simp
  with sd dd sr dr have "map ?n ?d = map ?n (rev ?u)"
    by (intro sorted_distinct_set_unique)
  moreover have "inj_on ?n (set ?d \<union> set (rev ?u))"
    using injn by simp
  ultimately show ?thesis
    by (simp only: inj_on_map_eq_map)
qed

subsection \<open>The filters\<close>

lemma subset_filterItems: "set (filterItems f xs) \<subseteq> set xs"
  by (auto simp: filterItems_def Let_def)

lemma filterItems_category:
  "i \<in> set (filterItems f xs) \<Longrightarrow> categoryActive f \<Longrightarrow> Some (category i) = fcategory f"
  by (auto simp: filterItems_def Let_def split: if_splits)

lemma filterItems_status:
  "i \<in> set (filterItems f xs) \<Longrightarrow> statusActive f \<Longrightarrow> Some (Only (status i)) = fstatus f"
  by (auto simp: filterItems_def Let_def split: if_splits)

lemma filterItems_location:
  "i \<in> set (filterItems f xs) \<Longrightarrow> locationActive f \<Longrightarrow> Some (location i) = flocation f"
  by (auto simp: filterItems_def Let_def split: if_splits)

lemma filterItems_onlyLow:
  "i \<in> set (filterItems f xs) \<Longrightarrow> onlyLowActive f \<Longrightarrow> status i \<noteq> Normal"
  by (auto simp: filterItems_def Let_def split: if_splits)

lemma distinct_qty_filterItems:
  "distinct (map qty xs) \<Longrightarrow> distinct (map qty (filterItems f xs))"
  by (simp add: filterItems_def Let_def distinct_map_filter)

text \<open>
  C4. For every input collection, every combination of filters and every sort, each
  record of the output of \<open>filterAndSort\<close> is a record of the input, and it has the
  category, the status and the location of every exact-match filter that is set to a
  value other than "all"; with the only-non-normal flag on, its status is not Normal.
\<close>

theorem filterAndSort_sound:
  assumes "i \<in> set (filterAndSort lc gt xs f s)"
  shows "i \<in> set xs
       \<and> (\<forall>c. fcategory f = Some c \<and> c \<noteq> all_label \<longrightarrow> category i = c)
       \<and> (\<forall>st. fstatus f = Some (Only st) \<longrightarrow> status i = st)
       \<and> (\<forall>l. flocation f = Some l \<and> l \<noteq> all_label \<longrightarrow> location i = l)
       \<and> (onlyLow f = Some True \<longrightarrow> status i \<noteq> Normal)"
proof -
  from assms have mem: "i \<in> set (filterItems f xs)"
    by (simp add: filterAndSort_def set_sortBy)
  then have "i \<in> set xs"
    using subset_filterItems by blast
  moreover have "category i = c" if "fcategory f = Some c" and "c \<noteq> all_label" for c
    using filterItems_category [OF mem] that by (simp add: categoryActive_def orElse_def)
  moreover have "status i = st" if "fstatus f = Some (Only st)" for st
    using filterItems_status [OF mem] that by (simp add: statusActive_def orElse_def)
  moreover have "location i = l" if "flocation f = Some l" and "l \<noteq> all_label" for l
    using filterItems_location [OF mem] that by (simp add: locationActive_def orElse_def)
  moreover have "status i \<noteq> Normal" if "onlyLow f = Some True"
    using filterItems_onlyLow [OF mem] that by (simp add: onlyLowActive_def)
  ultimately show ?thesis
    by blast
qed

theorem filterAndSort_sound_witness:
  "ex_dettol \<in> set (filterAndSort ex_collate ex_getTime [ex_tips, ex_dettol, ex_tissue]
                       ex_filters \<lparr>key = K_qty, asc = True\<rparr>)
   \<and> ex_dettol \<in> set [ex_tips, ex_dettol, ex_tissue]
   \<and> category ex_dettol = ''misc''
   \<and> status ex_dettol \<noteq> Normal"
proof -
  have mem: "ex_dettol \<in> set (filterAndSort ex_collate ex_getTime [ex_tips, ex_dettol, ex_tissue]
                                 ex_filters \<lparr>key = K_qty, asc = True\<rparr>)"
    by code_simp
  have cat: "fcategory ex_filters = Some ''misc'' \<and> ''misc'' \<noteq> all_label"
    by code_simp
  have low: "onlyLow ex_filters = Some True"
    by code_simp
  from filterAndSort_sound [OF mem] cat low mem show ?thesis
    by blast
qed

text \<open>
  C8. For every collection whose records have pairwise distinct quantities, and every
  combination of filters, sorting by quantity descending gives exactly the reverse of
  sorting the same collection by quantity ascending.
\<close>

theorem filterAndSort_qty_desc_rev:
  assumes "distinct (map qty xs)"
  shows "filterAndSort lc gt xs f \<lparr>key = K_qty, asc = False\<rparr>
       = rev (filterAndSort lc gt xs f \<lparr>key = K_qty, asc = True\<rparr>)"
proof -
  have down: "cmp lc gt \<lparr>key = K_qty, asc = False\<rparr> = (\<lambda>a b. - (qty a - qty b))"
    by (simp add: cmp_def direction_def fun_eq_iff)
  have up: "cmp lc gt \<lparr>key = K_qty, asc = True\<rparr> = (\<lambda>a b. qty a - qty b)"
    by (simp add: cmp_def direction_def fun_eq_iff)
  show ?thesis
    using assms
    by (simp only: filterAndSort_def down up sortBy_key sortBy_key_desc
        sort_key_neg_rev distinct_qty_filterItems)
qed

theorem filterAndSort_qty_desc_rev_witness:
  "distinct (map qty [ex_tips, ex_dettol, ex_tissue])
   \<and> filterAndSort ex_collate ex_getTime [ex_tips, ex_dettol, ex_tissue] ex_filters
        \<lparr>key = K_qty, asc = True\<rparr> = [ex_tissue, ex_dettol]
   \<and> filterAndSort ex_collate ex_getTime [ex_tips, ex_dettol, ex_tissue] ex_filters
        \<lparr>key = K_qty, asc = False\<rparr> = [ex_dettol, ex_tissue]"
proof -
  have d: "distinct (map qty [ex_tips, ex_dettol, ex_tissue])"
    by code_simp
  have up: "filterAndSort ex_collate ex_getTime [ex_tips, ex_dettol, ex_tissue] ex_filters
              \<lparr>key = K_qty, asc = True\<rparr> = [ex_tissue, ex_dettol]"
    by code_simp
  from filterAndSort_qty_desc_rev [OF d, of ex_collate ex_getTime ex_filters] up d
  show ?thesis
    by simp
qed

subsection \<open>The argument array is left as it was\<close>

lemma array_filter_grows:
  assumes "grows h0 a h xs"
  shows "\<exists>out h'. array_filter p a h = Some (out, h') \<and> grows h0 out h' (filter p xs)"
proof -
  from assms obtain ys where "a < length h" "h ! a = xs" "h = h0 @ ys"
    by (auto simp: grows_def)
  then show ?thesis
    by (simp add: array_filter_def new_array_def grows_def)
qed

lemma optional_filter_grows:
  assumes "grows h0 a h xs"
  shows "\<exists>out h'. (if b then array_filter p a h else Some (a, h)) = Some (out, h')
           \<and> grows h0 out h' (if b then filter p xs else xs)"
  using assms array_filter_grows [OF assms, of p] by (cases b) simp_all

lemma spread_sort_grows:
  assumes "grows h0 a h xs"
  shows "\<exists>ys. (array_spread a h \<bind> (\<lambda>(copy, h'). array_sort c copy h'))
            = Some (length h, h0 @ ys) \<and> (h0 @ ys) ! length h = sortBy c xs
              \<and> length h < length (h0 @ ys) \<and> length h0 \<le> length h"
proof -
  from assms obtain ys where a: "a < length h" and x: "h ! a = xs" and h: "h = h0 @ ys"
    by (auto simp: grows_def)
  have "(array_spread a h \<bind> (\<lambda>(copy, h'). array_sort c copy h'))
          = Some (length h, h @ [sortBy c xs])"
    using a x by (simp add: array_spread_def array_sort_def new_array_def nth_append)
  then have "(array_spread a h \<bind> (\<lambda>(copy, h'). array_sort c copy h'))
          = Some (length h, h0 @ (ys @ [sortBy c xs]))
       \<and> (h0 @ (ys @ [sortBy c xs])) ! length h = sortBy c xs
       \<and> length h < length (h0 @ (ys @ [sortBy c xs])) \<and> length h0 \<le> length h"
    using h by (simp add: nth_append)
  then show ?thesis
    by blast
qed

lemma filterAndSort_store_run:
  assumes "a < length h0"
  shows "\<exists>r ys. filterAndSort_store lc gt a f s h0 = Some (r, h0 @ ys)
           \<and> length h0 \<le> r \<and> r < length (h0 @ ys)
           \<and> (h0 @ ys) ! r = filterAndSort lc gt (h0 ! a) f s"
proof -
  let ?x1 = "filter (matchesQuery f) (h0 ! a)"
  let ?x2 = "if categoryActive f then filter (\<lambda>i. Some (category i) = fcategory f) ?x1 else ?x1"
  let ?x3 = "if statusActive f then filter (\<lambda>i. Some (Only (status i)) = fstatus f) ?x2 else ?x2"
  let ?x4 = "if locationActive f then filter (\<lambda>i. Some (location i) = flocation f) ?x3 else ?x3"
  let ?x5 = "if onlyLowActive f then filter (\<lambda>i. status i \<noteq> Normal) ?x4 else ?x4"
  have g0: "grows h0 a h0 (h0 ! a)"
    using assms by (simp add: grows_def)
  obtain o1 h1 where s1: "array_filter (matchesQuery f) a h0 = Some (o1, h1)"
    and g1: "grows h0 o1 h1 ?x1"
    using array_filter_grows [OF g0] by blast
  obtain o2 h2 where s2: "(if categoryActive f
        then array_filter (\<lambda>i. Some (category i) = fcategory f) o1 h1
        else Some (o1, h1)) = Some (o2, h2)"
    and g2: "grows h0 o2 h2 ?x2"
    using optional_filter_grows [OF g1] by blast
  obtain o3 h3 where s3: "(if statusActive f
        then array_filter (\<lambda>i. Some (Only (status i)) = fstatus f) o2 h2
        else Some (o2, h2)) = Some (o3, h3)"
    and g3: "grows h0 o3 h3 ?x3"
    using optional_filter_grows [OF g2] by blast
  obtain o4 h4 where s4: "(if locationActive f
        then array_filter (\<lambda>i. Some (location i) = flocation f) o3 h3
        else Some (o3, h3)) = Some (o4, h4)"
    and g4: "grows h0 o4 h4 ?x4"
    using optional_filter_grows [OF g3] by blast
  obtain o5 h5 where s5: "(if onlyLowActive f
        then array_filter (\<lambda>i. status i \<noteq> Normal) o4 h4
        else Some (o4, h4)) = Some (o5, h5)"
    and g5: "grows h0 o5 h5 ?x5"
    using optional_filter_grows [OF g4] by blast
  obtain ys where fin:
      "(array_spread o5 h5 \<bind> (\<lambda>(copy, h'). array_sort (cmp lc gt s) copy h'))
         = Some (length h5, h0 @ ys)"
    and res: "(h0 @ ys) ! length h5 = sortBy (cmp lc gt s) ?x5"
    and bounds: "length h5 < length (h0 @ ys)" "length h0 \<le> length h5"
    using spread_sort_grows [OF g5] by blast
  have run: "filterAndSort_store lc gt a f s h0 = Some (length h5, h0 @ ys)"
    unfolding filterAndSort_store_def
    by (simp only: s1 s2 s3 s4 s5 fin bind.bind_lunit split)
  have "?x5 = filterItems f (h0 ! a)"
    by (simp only: filterItems_def Let_def)
  with run res bounds show ?thesis
    by (auto simp: filterAndSort_def)
qed

text \<open>
  C9. For every store of arrays, every array \<open>a\<close> in it, every combination of filters
  and every sort, \<open>filterAndSort\<close> on \<open>a\<close> returns: its result \<open>r\<close> is an array other than
  \<open>a\<close>, holding the records \<open>filterAndSort\<close> computes from those of \<open>a\<close>, and after the call
  \<open>a\<close> and every other array that was in the store hold the same records in the same order
  as before. (The predicates and the comparator only read the fields of a record.)
\<close>

theorem filterAndSort_store_frame:
  assumes "a < length h0"
  shows "\<exists>r h'. filterAndSort_store lc gt a f s h0 = Some (r, h')
           \<and> h' ! a = h0 ! a
           \<and> take (length h0) h' = h0
           \<and> r \<noteq> a \<and> r < length h'
           \<and> h' ! r = filterAndSort lc gt (h0 ! a) f s"
proof -
  from filterAndSort_store_run [OF assms, of lc gt f s]
  obtain r ys where run: "filterAndSort_store lc gt a f s h0 = Some (r, h0 @ ys)"
    and r: "length h0 \<le> r" "r < length (h0 @ ys)"
    and res: "(h0 @ ys) ! r = filterAndSort lc gt (h0 ! a) f s"
    by blast
  have "(h0 @ ys) ! a = h0 ! a"
    using assms by (simp add: nth_append)
  moreover have "take (length h0) (h0 @ ys) = h0"
    by simp
  moreover have "r \<noteq> a"
    using assms r(1) by simp
  ultimately show ?thesis
    using run r(2) res by blast
qed

theorem filterAndSort_store_frame_witness:
  "(0::nat) < length [[ex_tips, ex_dettol, ex_tissue]]
   \<and> (\<exists>r h'. filterAndSort_store ex_collate ex_getTime 0 ex_filters \<lparr>key = K_qty, asc = True\<rparr>
                 [[ex_tips, ex_dettol, ex_tissue]] = Some (r, h')
            \<and> h' ! 0 = [ex_tips, ex_dettol, ex_tissue]
            \<and> r \<noteq> 0
            \<and> h' ! r = [ex_tissue, ex_dettol])"
proof -
  have a: "(0::nat) < length [[ex_tips, ex_dettol, ex_tissue]]"
    by simp
  have res: "filterAndSort ex_collate ex_getTime ([[ex_tips, ex_dettol, ex_tissue]] ! 0)
               ex_filters \<lparr>key = K_qty, asc = True\<rparr> = [ex_tissue, ex_dettol]"
    by code_simp
  from filterAndSort_store_frame [OF a, of ex_collate ex_getTime ex_filters
      "\<lparr>key = K_qty, asc = True\<rparr>"] res a
  show ?thesis
    by auto
qed

section \<open>Checker roster: properties\<close>

lemma lower_of_upper:
  assumes "is_upper a" and "(of_char b :: nat) = of_char a + 32"
  shows "lower_char a = b" and "lower_char b = b"
proof -
  have "char_of ((of_char a :: nat) + 32) = char_of (of_char b :: nat)"
    by (simp only: assms(2))
  then show "lower_char a = b"
    using assms(1) by (simp add: lower_char_def)
  have "\<not> is_upper b"
    using assms by (simp add: is_upper_def)
  then show "lower_char b = b"
    by (simp add: lower_char_def)
qed

lemma same_letter_lower: "same_letter a b \<Longrightarrow> lower_char a = lower_char b"
  unfolding same_letter_def by (auto simp: lower_of_upper)

lemma ascii_ci_eq_lower: "ascii_ci_eq a b \<Longrightarrow> toLowerCase a = toLowerCase b"
  unfolding ascii_ci_eq_def toLowerCase_def
  by (induction a b rule: list_all2_induct) (simp_all add: same_letter_lower)

text \<open>
  C5, as the code has it. For every roster and every text of the input field whose
  trimmed form is not empty and equals a name of the roster up to ASCII case, \<open>addMember\<close>
  shows the message and leaves the roster and the input field as they were; with the
  roster Ann, Bo the name ann is rejected, also when a no-break space (U+00A0) follows it.
\<close>

theorem addMember_duplicate_rejected:
  assumes "trim new \<noteq> []" and "c \<in> set roster" and "ascii_ci_eq c (trim new)"
  shows "addMember saved roster new = (Some DUPLICATE_MESSAGE, roster, new)"
proof -
  have "toLowerCase c = toLowerCase (trim new)"
    using assms(3) by (rule ascii_ci_eq_lower)
  with assms(2) have "list_ex (\<lambda>c. toLowerCase c = toLowerCase (trim new)) roster"
    by (auto simp: list_ex_iff)
  with assms(1) show ?thesis
    by (simp add: addMember_def Let_def)
qed

theorem addMember_duplicate_rejected_witness:
  "addMember True [''Ann'', ''Bo''] ''ann'' = (Some DUPLICATE_MESSAGE, [''Ann'', ''Bo''], ''ann'')
   \<and> addMember True [''Ann'', ''Bo''] (''ann'' @ [CHR 0xC2, CHR 0xA0])
       = (Some DUPLICATE_MESSAGE, [''Ann'', ''Bo''], ''ann'' @ [CHR 0xC2, CHR 0xA0])"
proof -
  have 1: "trim ''ann'' \<noteq> []"
    by code_simp
  have 2: "''Ann'' \<in> set [''Ann'', ''Bo'']"
    by simp
  have 3: "ascii_ci_eq ''Ann'' (trim ''ann'')"
    by code_simp
  have 4: "trim (''ann'' @ [CHR 0xC2, CHR 0xA0]) \<noteq> []"
    by code_simp
  have 5: "ascii_ci_eq ''Ann'' (trim (''ann'' @ [CHR 0xC2, CHR 0xA0]))"
    by code_simp
  from addMember_duplicate_rejected [OF 1 2 3] addMember_duplicate_rejected [OF 4 2 5]
  show ?thesis
    by simp
qed

text \<open>
  C5 without the two conditions on the trimmed form fails. An empty name equals the empty
  name of a roster, and \<open>addMember\<close> returns at \<open>if (!name) return\<close> without a message.
  The name "ann " (with a space at its end) equals the roster's "Ann " up to case, and
  \<open>addMember\<close> compares and adds its trimmed form "ann": the roster grows.
\<close>

theorem addMember_duplicate_counterexample:
  "ascii_ci_eq [] []
   \<and> addMember True [[]] [] = (None, [[]], [])
   \<and> ascii_ci_eq ''Ann '' ''ann ''
   \<and> addMember True [''Ann ''] ''ann '' = (None, [''Ann '', ''ann''], [])"
  by code_simp

subsection \<open>Remote "checker added" events\<close>

lemma set_foldl_set_add: "set (foldl set_add acc xs) = set acc \<union> set xs"
  by (induction xs arbitrary: acc) (auto simp: set_add_def)

lemma distinct_foldl_set_add: "distinct acc \<Longrightarrow> distinct (foldl set_add acc xs)"
  by (induction xs arbitrary: acc) (auto simp: set_add_def)

lemma foldl_set_add_distinct: "distinct (acc @ xs) \<Longrightarrow> foldl set_add acc xs = acc @ xs"
  by (induction xs arbitrary: acc) (auto simp: set_add_def)

lemma new_Set_distinct: "distinct xs \<Longrightarrow> new_Set xs = xs"
  using foldl_set_add_distinct [of "[]" xs] by (simp add: new_Set_def)

lemma onCheckersInsert_eq:
  "onCheckersInsert prev n = (if n \<in> set prev then new_Set prev else new_Set prev @ [n])"
  by (simp add: onCheckersInsert_def new_Set_def set_add_def set_foldl_set_add)

text \<open>
  C7. For every roster and every remote "checker added" event with a name \<open>n\<close>, the
  handler adds \<open>n\<close> at the end exactly when no name of the roster is equal to \<open>n\<close>, byte
  for byte: the names of the result are those of the roster and \<open>n\<close>, each once, and a
  roster without duplicates is otherwise kept as it is. A name that differs from a
  roster name only in letter case is not in the roster, and is added.
\<close>

theorem onCheckersInsert_union:
  "onCheckersInsert prev n = (if n \<in> set prev then new_Set prev else new_Set prev @ [n])
   \<and> set (onCheckersInsert prev n) = insert n (set prev)
   \<and> distinct (onCheckersInsert prev n)
   \<and> (distinct prev \<longrightarrow> new_Set prev = prev)
   \<and> (n \<notin> set prev \<and> list_ex (\<lambda>c. toLowerCase c = toLowerCase n) prev
        \<longrightarrow> onCheckersInsert prev n = new_Set prev @ [n])"
proof -
  have "set (onCheckersInsert prev n) = insert n (set prev)"
    unfolding onCheckersInsert_def new_Set_def set_foldl_set_add by simp
  moreover have "distinct (onCheckersInsert prev n)"
    unfolding onCheckersInsert_def new_Set_def
    by (simp add: distinct_foldl_set_add del: foldl_append)
  ultimately show ?thesis
    using onCheckersInsert_eq [of prev n] by (simp add: new_Set_distinct)
qed

theorem onCheckersInsert_union_witness:
  "distinct [''Ann'', ''Bo'']
   \<and> ''ann'' \<notin> set [''Ann'', ''Bo'']
   \<and> list_ex (\<lambda>c. toLowerCase c = toLowerCase ''ann'') [''Ann'', ''Bo'']
   \<and> onCheckersInsert [''Ann'', ''Bo''] ''ann'' = [''Ann'', ''Bo'', ''ann'']
   \<and> onCheckersInsert [''Ann'', ''Bo''] ''Bo'' = [''Ann'', ''Bo'']"
proof -
  have d: "distinct [''Ann'', ''Bo'']"
    by simp
  have n: "''ann'' \<notin> set [''Ann'', ''Bo'']"
    by simp
  have l: "list_ex (\<lambda>c. toLowerCase c = toLowerCase ''ann'') [''Ann'', ''Bo'']"
    by code_simp
  from onCheckersInsert_union [of "[''Ann'', ''Bo'']" "''ann''"]
       onCheckersInsert_union [of "[''Ann'', ''Bo'']" "''Bo''"] d n l
  show ?thesis
    by simp
qed

section \<open>Quantities are never negative\<close>

lemma adjustQty_nonneg:
  "list_all (\<lambda>i. 0 \<le> qty i) prev \<Longrightarrow>
   list_all (\<lambda>i. 0 \<le> qty i) (adjustQty a low now target delta prev)"
  by (simp add: adjustQty_def list_all_iff adjustOne_nonneg)

lemma removeItem_nonneg:
  "list_all (\<lambda>i. 0 \<le> qty i) prev \<Longrightarrow>
   list_all (\<lambda>i. 0 \<le> qty i) (removeItem confirmed deleted target prev)"
  by (simp add: removeItem_def list_all_iff)

lemma onItemsDelete_nonneg:
  "list_all (\<lambda>i. 0 \<le> qty i) prev \<Longrightarrow> list_all (\<lambda>i. 0 \<le> qty i) (onItemsDelete prev r)"
  by (simp add: onItemsDelete_def list_all_iff)

lemma mergeOne_nonneg:
  "list_all (\<lambda>i. 0 \<le> qty i) prev \<Longrightarrow> 0 \<le> qty it \<Longrightarrow>
   list_all (\<lambda>i. 0 \<le> qty i) (mergeOne prev it)"
  by (auto simp: mergeOne_def Let_def list_all_iff)

lemma onItemsUpsert_nonneg:
  "list_all (\<lambda>i. 0 \<le> qty i) prev \<Longrightarrow> 0 \<le> row_qty r \<Longrightarrow>
   list_all (\<lambda>i. 0 \<le> qty i) (onItemsUpsert prev r)"
  by (simp add: onItemsUpsert_def mergeOne_nonneg rowToItem_def)

lemma confirmQuickCheck_inv: "qty_inv s \<Longrightarrow> qty_inv (confirmQuickCheck now saved s)"
  by (auto simp: qty_inv_def confirmQuickCheck_def Let_def list_all_iff split: option.splits)

lemma openQuickCheck_inv:
  "qty_inv s \<Longrightarrow> k < length (items s) \<Longrightarrow> qty_inv (openQuickCheck (items s ! k) s)"
  by (simp add: qty_inv_def openQuickCheck_def list_all_length)

lemma handle_inv:
  assumes "qty_inv s" and "clamped e"
  shows "qty_inv (handle s e)"
proof (cases e)
  case (AdjustQty target delta now)
  with assms show ?thesis by (simp add: qty_inv_def adjustQty_nonneg)
next
  case (OpenQuickCheck k)
  with assms show ?thesis by (simp add: openQuickCheck_inv)
next
  case (ToggleChecker n)
  with assms show ?thesis by (simp add: qty_inv_def toggleChecker_def)
next
  case (ConfirmQuickCheck now saved)
  with assms show ?thesis by (simp add: confirmQuickCheck_inv)
next
  case (Remove confirmed deleted target)
  with assms show ?thesis by (simp add: qty_inv_def removeItem_nonneg)
next
  case (AddMember saved)
  with assms show ?thesis by (simp add: qty_inv_def split: prod.splits)
next
  case (ItemsUpsert r)
  with assms show ?thesis by (simp add: qty_inv_def onItemsUpsert_nonneg)
next
  case (ItemsDelete r)
  with assms show ?thesis by (simp add: qty_inv_def onItemsDelete_nonneg)
qed (use assms in \<open>simp_all add: qty_inv_def\<close>)

text \<open>
  C6, as the code has it. Take a state in which every record of the store has a quantity
  of at least 0, and so has the record the quick-check dialog holds, if it holds one.
  Every sequence of events (quantity adjustments, openings and confirmations of the
  quick check, deletions, remote deletes, and remote inserts and updates whose row has a
  quantity of at least 0) leads to a state of which the same is true: every quantity in
  the store stays at least 0. Two paths do not clamp: the merge of a remote row stores
  the quantity the row has, and a confirmation writes the record of the dialog back
  whole.
\<close>

theorem qty_inv_run:
  assumes "qty_inv s" and "list_all clamped es"
  shows "qty_inv (run s es) \<and> list_all (\<lambda>i. 0 \<le> qty i) (items (run s es))"
proof -
  from assms have "qty_inv (run s es)"
    unfolding run_def
  proof (induction es arbitrary: s)
    case Nil
    then show ?case by simp
  next
    case (Cons e es)
    then show ?case by (simp add: handle_inv)
  qed
  then show ?thesis
    by (simp add: qty_inv_def)
qed

theorem qty_inv_run_witness:
  "qty_inv ex_app
   \<and> list_all clamped [AdjustQty 1 (- 1) ''t1'', ItemsUpsert (ex_row 3), OpenQuickCheck 1,
                       ToggleChecker ''Ann'', ConfirmQuickCheck ''t2'' True, Remove True True 18]
   \<and> qty_inv (run ex_app [AdjustQty 1 (- 1) ''t1'', ItemsUpsert (ex_row 3), OpenQuickCheck 1,
                           ToggleChecker ''Ann'', ConfirmQuickCheck ''t2'' True, Remove True True 18])
   \<and> map qty (items (run ex_app [AdjustQty 1 (- 1) ''t1'', ItemsUpsert (ex_row 3),
                           OpenQuickCheck 1, ToggleChecker ''Ann'', ConfirmQuickCheck ''t2'' True,
                           Remove True True 18])) = [1, 0, 3]"
proof -
  have i: "qty_inv ex_app"
    by code_simp
  have c: "list_all clamped [AdjustQty 1 (- 1) ''t1'', ItemsUpsert (ex_row 3), OpenQuickCheck 1,
                             ToggleChecker ''Ann'', ConfirmQuickCheck ''t2'' True, Remove True True 18]"
    by code_simp
  have q: "map qty (items (run ex_app [AdjustQty 1 (- 1) ''t1'', ItemsUpsert (ex_row 3),
                           OpenQuickCheck 1, ToggleChecker ''Ann'', ConfirmQuickCheck ''t2'' True,
                           Remove True True 18])) = [1, 0, 3]"
    by code_simp
  from qty_inv_run [OF i c] i c q show ?thesis
    by simp
qed

text \<open>
  C6 for every remote event fails: a remote insert of a row with quantity \<open>-1\<close> into a
  store whose quantities are 8, 1 and 0 leaves a record with quantity \<open>-1\<close> in the store.
  And the quantities of the store alone are not preserved by a confirmation: when the
  dialog was opened on that record and a remote update then sets its quantity to 2, the
  quantities of the store are 8, 1, 0 and 2, and the confirmation writes the record of the
  dialog back, with its quantity \<open>-1\<close>.
\<close>

theorem merge_negative_quantity_counterexample:
  "qty_inv ex_app
   \<and> map qty (items (handle ex_app (ItemsUpsert (ex_row (- 1))))) = [8, 1, 0, - 1]
   \<and> \<not> qty_inv (handle ex_app (ItemsUpsert (ex_row (- 1))))
   \<and> map qty (items (run ex_app [ItemsUpsert (ex_row (- 1)), OpenQuickCheck 3,
                                 ItemsUpsert (ex_row 2)])) = [8, 1, 0, 2]
   \<and> map qty (items (run ex_app [ItemsUpsert (ex_row (- 1)), OpenQuickCheck 3,
                                 ItemsUpsert (ex_row 2), ConfirmQuickCheck ''t2'' True]))
       = [8, 1, 0, - 1]"
  by code_simp

end
